theory Spec2Isabelle
  imports Complex_Main
begin

section \<open>Conventions of the embedding\<close>

text \<open>
  The program is Python. Its numbers are floats (page sizes, coordinates, angles, scale
  factors) and ints (box counts, loop indices, pixel sizes of an image). Floats are
  embedded as \<^typ>\<open>real\<close>: the theorems below are about the arithmetic the code
  writes down, not about rounding. Ints are \<^typ>\<open>int\<close>. A Python \<open>str\<close> is a
  sequence of Unicode code points and is embedded as a list of code points.

  Every \<open>raise\<close> of the source, every division (which raises on a zero divisor) and
  every indexing of a possibly empty sequence is a branch that returns \<open>Inl\<close> of an
  error. Calls into reportlab, PyPDF4, numpy's and math's functions are taken to return.
\<close>

type_synonym str = "nat list"

datatype error =
    ValueError_invalid_alignment
  | ValueError_no_watermark
  | NotImplementedError_unknown_type
  | ZeroDivisionError
  | IndexError

definition py_div :: "real \<Rightarrow> real \<Rightarrow> error + real" where
  "py_div a b = (if b = 0 then Inl ZeroDivisionError else Inr (a / b))"

section \<open>Geometry: \<open>change_base\<close> and the rotation matrix\<close>

text \<open>A 2x2 \<open>numpy\<close> array, as its two rows.\<close>

type_synonym ndarray2 = "(real \<times> real) \<times> (real \<times> real)"

fun np_transpose :: "ndarray2 \<Rightarrow> ndarray2" where
  "np_transpose ((a, b), (c, d)) = ((a, c), (b, d))"

text \<open>The product \<open>m @ np.array([[x], [y]])\<close> of a 2x2 array and a column.\<close>

fun np_matmul_column :: "ndarray2 \<Rightarrow> real \<times> real \<Rightarrow> real \<times> real" where
  "np_matmul_column ((a, b), (c, d)) (x, y) = (a * x + b * y, c * x + d * y)"

text \<open>\<open>utils.py\<close>, \<open>change_base\<close>: the entries \<open>[0, 0]\<close> and \<open>[1, 0]\<close> of
  \<open>np.transpose(rotation_matrix) @ np.array([[x], [y]])\<close>.\<close>

definition change_base :: "real \<Rightarrow> real \<Rightarrow> ndarray2 \<Rightarrow> real \<times> real" where
  "change_base x y rotation_matrix =
     (let new_coordinates = np_matmul_column (np_transpose rotation_matrix) (x, y)
      in (fst new_coordinates, snd new_coordinates))"

text \<open>\<open>draw.py\<close>, \<open>draw_watermarks\<close>, and \<open>utils.py\<close>, \<open>create_watermark_pdf\<close>: the
  rotation matrix of the angle given in degrees.\<close>

definition rotation_matrix_of :: "real \<Rightarrow> ndarray2" where
  "rotation_matrix_of angle =
     (let rotation_angle_rad = angle * pi / 180
      in ((cos rotation_angle_rad, - sin rotation_angle_rad),
          (sin rotation_angle_rad, cos rotation_angle_rad)))"

section \<open>Text: \<open>is_chinese\<close>\<close>

text \<open>\<open>draw.py\<close> and \<open>utils.py\<close>, \<open>is_chinese\<close> (the same text in both): the loop
  returns at the first character between U+4E00 and U+9FFF, and returns \<open>False\<close> when
  the characters are exhausted.\<close>

fun is_chinese :: "str \<Rightarrow> bool" where
  "is_chinese [] = False"
| "is_chinese (ch # text) =
     (if 0x4E00 \<le> ch \<and> ch \<le> 0x9FFF then True else is_chinese text)"

section \<open>Box fitting: the arithmetic of \<open>create_watermark_pdf\<close>\<close>

text \<open>\<open>utils.py\<close>, \<open>create_watermark_pdf\<close>, the two \<open>if\<close> statements that shrink the
  image to the box. A division raises when the divisor is zero.\<close>

definition shrink_to_box :: "real \<Rightarrow> real \<Rightarrow> real \<Rightarrow> real \<Rightarrow> error + real \<times> real" where
  "shrink_to_box image_width image_height horizontal_box_spacing vertical_box_spacing =
     (case
        (if image_width > horizontal_box_spacing then
           (case py_div horizontal_box_spacing image_width of
              Inl e \<Rightarrow> Inl e
            | Inr change_ratio \<Rightarrow> Inr (horizontal_box_spacing, image_height * change_ratio))
         else Inr (image_width, image_height))
      of
        Inl e \<Rightarrow> Inl e
      | Inr (image_width1, image_height1) \<Rightarrow>
          if image_height1 > vertical_box_spacing then
            (case py_div vertical_box_spacing image_height1 of
               Inl e \<Rightarrow> Inl e
             | Inr change_ratio \<Rightarrow> Inr (image_width1 * change_ratio, vertical_box_spacing))
          else Inr (image_width1, image_height1))"

text \<open>The same block with the two multiplications by \<open>image_scale\<close> that end it.\<close>

definition fit_box :: "real \<Rightarrow> real \<Rightarrow> real \<Rightarrow> real \<Rightarrow> real \<Rightarrow> error + real \<times> real" where
  "fit_box image_width image_height horizontal_box_spacing vertical_box_spacing image_scale =
     (case shrink_to_box image_width image_height horizontal_box_spacing vertical_box_spacing of
        Inl e \<Rightarrow> Inl e
      | Inr (image_width1, image_height1) \<Rightarrow>
          Inr (image_width1 * image_scale, image_height1 * image_scale))"

section \<open>Options, canvas and the code outside the source tree\<close>

text \<open>Modelled from the spec: \<open>app/options.py\<close>, which declares the option classes and
  the enumeration \<open>Alignments\<close>, is not in the source tree. The spec calls them simple
  configuration structs and gives the enumeration as LEFT, RIGHT, CENTER. The records
  below list the fields that \<open>draw.py\<close> reads, under the names it reads them by (\<open>text\<close>
  and \<open>image\<close>, which may be \<open>None\<close>, are \<open>text_opt\<close> and \<open>image_opt\<close>; the fractional
  coordinates \<open>x\<close> and \<open>y\<close> of an insert are \<open>insert_x\<close> and \<open>insert_y\<close>). An image
  reader is known by its file and by the pixel size that \<open>getSize\<close> returns.\<close>

datatype ImageReader = ImageReader (image_file: str) (getSize: "int \<times> int")

record DrawingOptions =
  text_opt :: "str option"
  text_font :: str
  text_size :: real
  text_color :: str
  opacity :: real
  angle :: real
  image_opt :: "ImageReader option"
  image_scale :: real

record GridOptions =
  horizontal_boxes :: int
  vertical_boxes :: int
  margin :: bool

datatype Alignments = LEFT | RIGHT | CENTER

text \<open>\<open>horizontal_alignment\<close> is compared with \<open>Alignments.LEFT.value\<close> and its siblings;
  the type \<open>'v\<close> of these values is left open.\<close>

record 'v InsertOptions =
  insert_x :: real
  insert_y :: real
  horizontal_alignment :: 'v

text \<open>\<open>specific_options\<close> is tested with \<open>isinstance\<close>; anything that is neither kind of
  options is \<open>OtherOptions\<close>.\<close>

datatype 'v specific_options =
    Grid GridOptions
  | Insert "'v InsertOptions"
  | OtherOptions

text \<open>What the drawing code takes from outside the source tree: the values of the
  enumeration \<open>Alignments\<close>, the canvas's \<open>stringWidth\<close> (text, font, size), the helper
  \<open>fit_image\<close> that \<open>draw.py\<close> imports from \<open>app.utils\<close> (image width, image height,
  maximal width, maximal height, scale; the file in the tree does not define it),
  \<open>platform.system()\<close> and the list that \<open>get_all_zh_font()\<close> computes from the installed
  fonts.\<close>

record 'v environment =
  Alignments_value :: "Alignments \<Rightarrow> 'v"
  stringWidth :: "str \<Rightarrow> str \<Rightarrow> real \<Rightarrow> real"
  fit_image :: "real \<Rightarrow> real \<Rightarrow> real \<Rightarrow> real \<Rightarrow> real \<Rightarrow> real \<times> real"
  platform_system :: str
  get_all_zh_font :: "str list"

text \<open>A reportlab canvas: the file it will be saved to, its page size and the drawing
  operations issued so far, oldest first.\<close>

datatype canvas_op =
    SetFillColor str real
  | SetFont str real
  | Rotate real
  | DrawCentredString real real str
  | DrawImage ImageReader real real real real

record Canvas =
  file_name :: str
  pagesize :: "real \<times> real"
  ops :: "canvas_op list"

definition issue :: "canvas_op \<Rightarrow> Canvas \<Rightarrow> Canvas" where
  "issue operation canvas = canvas\<lparr>ops := ops canvas @ [operation]\<rparr>"

section \<open>Drawing: \<open>draw.py\<close>\<close>

text \<open>\<open>utils.py\<close>, \<open>draw_centered_image\<close>.\<close>

definition draw_centered_image ::
  "Canvas \<Rightarrow> real \<Rightarrow> real \<Rightarrow> real \<Rightarrow> real \<Rightarrow> ImageReader \<Rightarrow> Canvas" where
  "draw_centered_image canvas x y width height img =
     (let bottom_left_x = x - width / 2;
          bottom_left_y = y - height / 2
      in issue (DrawImage img bottom_left_x bottom_left_y width height) canvas)"

text \<open>\<open>draw.py\<close>, \<open>draw_one_watermark\<close>.\<close>

definition draw_one_watermark ::
  "Canvas \<Rightarrow> real \<Rightarrow> real \<Rightarrow> ndarray2 \<Rightarrow> DrawingOptions \<Rightarrow> real \<Rightarrow> real \<Rightarrow> Canvas" where
  "draw_one_watermark watermark x y rotation_matrix drawing_options image_width image_height =
     (let (x_prime, y_prime) = change_base x y rotation_matrix;
          watermark1 =
            (case text_opt drawing_options of
               None \<Rightarrow> watermark
             | Some t \<Rightarrow> issue (DrawCentredString x_prime y_prime t) watermark)
      in (case image_opt drawing_options of
            None \<Rightarrow> watermark1
          | Some img \<Rightarrow>
              draw_centered_image watermark1 x_prime y_prime image_width image_height img))"

text \<open>\<open>draw.py\<close>, \<open>draw_insert_watermark\<close>, in the order of the source: the maximal image
  height; the maximal image width by alignment; the watermark's width together with the
  image's fitted size (\<open>0, 0\<close> unless the image branch is taken); the offset by alignment;
  the one call of \<open>draw_one_watermark\<close>.\<close>

definition max_image_height :: "'v InsertOptions \<Rightarrow> real \<Rightarrow> real" where
  "max_image_height specific_options height =
     min (2 * insert_y specific_options * height)
         (2 * (2 * (1 - insert_y specific_options) * height))"

definition max_image_width :: "'v environment \<Rightarrow> 'v InsertOptions \<Rightarrow> real \<Rightarrow> error + real" where
  "max_image_width E specific_options width =
     (if horizontal_alignment specific_options = Alignments_value E LEFT then
        Inr (insert_x specific_options * width)
      else if horizontal_alignment specific_options = Alignments_value E RIGHT then
        Inr ((1 - insert_x specific_options) * width)
      else if horizontal_alignment specific_options = Alignments_value E CENTER then
        Inr (min (2 * (1 - insert_x specific_options) * width)
                 (2 * insert_x specific_options * width))
      else Inl ValueError_invalid_alignment)"

definition watermark_size ::
  "'v environment \<Rightarrow> DrawingOptions \<Rightarrow> 'v InsertOptions \<Rightarrow> real \<Rightarrow> real
     \<Rightarrow> error + real \<times> real \<times> real" where
  "watermark_size E drawing_options specific_options width height =
     (case text_opt drawing_options of
        Some t \<Rightarrow>
          Inr (stringWidth E t (text_font drawing_options) (text_size drawing_options), 0, 0)
      | None \<Rightarrow>
          (case image_opt drawing_options of
             Some img \<Rightarrow>
               (case max_image_width E specific_options width of
                  Inl e \<Rightarrow> Inl e
                | Inr max_width \<Rightarrow>
                    (let (image_width, image_height) =
                           fit_image E (of_int (fst (getSize img))) (of_int (snd (getSize img)))
                             max_width (max_image_height specific_options height)
                             (image_scale drawing_options)
                     in Inr (image_width, image_width, image_height)))
           | None \<Rightarrow> Inl ValueError_no_watermark))"

definition alignment_offset :: "'v environment \<Rightarrow> 'v InsertOptions \<Rightarrow> real \<Rightarrow> error + real" where
  "alignment_offset E specific_options watermark_width =
     (if horizontal_alignment specific_options = Alignments_value E LEFT then
        Inr (- watermark_width / 2)
      else if horizontal_alignment specific_options = Alignments_value E RIGHT then
        Inr (watermark_width / 2)
      else if horizontal_alignment specific_options = Alignments_value E CENTER then
        Inr 0
      else Inl ValueError_invalid_alignment)"

definition draw_insert_watermark ::
  "'v environment \<Rightarrow> Canvas \<Rightarrow> DrawingOptions \<Rightarrow> 'v InsertOptions \<Rightarrow> real \<Rightarrow> real \<Rightarrow> ndarray2
     \<Rightarrow> error + Canvas" where
  "draw_insert_watermark E watermark drawing_options specific_options width height rotation_matrix =
     (case watermark_size E drawing_options specific_options width height of
        Inl e \<Rightarrow> Inl e
      | Inr (watermark_width, image_width, image_height) \<Rightarrow>
          (case alignment_offset E specific_options watermark_width of
             Inl e \<Rightarrow> Inl e
           | Inr offset \<Rightarrow>
               Inr (draw_one_watermark watermark
                      (insert_x specific_options * width + offset)
                      (insert_y specific_options * height)
                      rotation_matrix drawing_options image_width image_height)))"

text \<open>\<open>draw.py\<close>, \<open>draw_grid_watermark\<close>. The two divisions come first and raise on a
  zero box count. The body of the nested loops computes the cell's coordinates; the
  loops run over \<open>range(start_index, boxes + 1)\<close>.\<close>

definition grid_image_size :: "'v environment \<Rightarrow> DrawingOptions \<Rightarrow> real \<Rightarrow> real \<Rightarrow> real \<times> real" where
  "grid_image_size E drawing_options horizontal_box_spacing vertical_box_spacing =
     (case image_opt drawing_options of
        None \<Rightarrow> (0, 0)
      | Some img \<Rightarrow>
          fit_image E (of_int (fst (getSize img))) (of_int (snd (getSize img)))
            horizontal_box_spacing vertical_box_spacing (image_scale drawing_options))"

definition cell_base :: "bool \<Rightarrow> real \<Rightarrow> real \<Rightarrow> int \<Rightarrow> int \<Rightarrow> real \<times> real" where
  "cell_base with_margin horizontal_box_spacing vertical_box_spacing x_index y_index =
     (let x_base = of_int x_index * horizontal_box_spacing;
          y_base = of_int y_index * vertical_box_spacing
      in if with_margin
         then (x_base - horizontal_box_spacing / 2, y_base - vertical_box_spacing / 2)
         else (x_base, y_base))"

definition draw_grid_watermark ::
  "'v environment \<Rightarrow> Canvas \<Rightarrow> DrawingOptions \<Rightarrow> GridOptions \<Rightarrow> real \<Rightarrow> real \<Rightarrow> ndarray2
     \<Rightarrow> error + Canvas" where
  "draw_grid_watermark E watermark drawing_options specific_options width height rotation_matrix =
     (case py_div width (of_int (horizontal_boxes specific_options)) of
        Inl e \<Rightarrow> Inl e
      | Inr horizontal_box_spacing \<Rightarrow>
     (case py_div height (of_int (vertical_boxes specific_options)) of
        Inl e \<Rightarrow> Inl e
      | Inr vertical_box_spacing \<Rightarrow>
          (let start_index = (if margin specific_options then 1 else 0);
               (image_width, image_height) =
                  grid_image_size E drawing_options horizontal_box_spacing vertical_box_spacing
           in Inr (fold (\<lambda>x_index. fold (\<lambda>y_index canvas.
                     (let (x_base, y_base) =
                            cell_base (margin specific_options) horizontal_box_spacing
                              vertical_box_spacing x_index y_index
                      in draw_one_watermark canvas x_base y_base rotation_matrix
                           drawing_options image_width image_height))
                     [start_index..vertical_boxes specific_options])
                   [start_index..horizontal_boxes specific_options] watermark))))"

text \<open>\<open>draw.py\<close>, \<open>draw_watermarks\<close>, the choice of a font for Chinese text.
  \<open>str.find\<close> returns the lowest index of the substring, or \<open>-1\<close>.\<close>

fun str_find :: "str \<Rightarrow> str \<Rightarrow> int" where
  "str_find [] sub = (if sub = [] then 0 else - 1)"
| "str_find (ch # s) sub =
     (if take (length sub) (ch # s) = sub then 0
      else (let r = str_find s sub in if r < 0 then - 1 else r + 1))"

definition str_Hei :: str where
  "str_Hei = [72, 101, 105]"

definition str_Windows :: str where
  "str_Windows = [87, 105, 110, 100, 111, 119, 115]"

definition str_Microsoft_YaHei :: str where
  "str_Microsoft_YaHei = [77, 105, 99, 114, 111, 115, 111, 102, 116, 32, 89, 97, 72, 101, 105]"

text \<open>The loop \<open>for f in zh_fonts\<close>: it stops at the first font whose name has \<open>Hei\<close> at
  an index above zero, and sets the font to \<open>zh_fonts[0]\<close> at every other font it
  passes.\<close>

fun zh_font_loop :: "str list \<Rightarrow> str \<Rightarrow> str \<Rightarrow> str" where
  "zh_font_loop [] first_font current_font = current_font"
| "zh_font_loop (f # fs) first_font current_font =
     (if str_find f str_Hei > 0 then f else zh_font_loop fs first_font first_font)"

text \<open>\<open>list('Microsoft YaHei')\<close> is the list of the one-character strings of the name.
  The registration of the font with reportlab and the printed warning do not touch the
  canvas and are left out.\<close>

definition choose_zh_font :: "'v environment \<Rightarrow> DrawingOptions \<Rightarrow> DrawingOptions" where
  "choose_zh_font E drawing_options =
     (let zh_fonts =
            (if str_Windows \<noteq> platform_system E then get_all_zh_font E
             else map (\<lambda>ch. [ch]) str_Microsoft_YaHei)
      in if length zh_fonts > 0 then
           (if text_font drawing_options \<notin> set zh_fonts then
              drawing_options\<lparr>text_font :=
                zh_font_loop zh_fonts (zh_fonts ! 0) (text_font drawing_options)\<rparr>
            else drawing_options)
         else drawing_options)"

text \<open>\<open>draw.py\<close>, \<open>draw_watermarks\<close>, and \<open>utils.py\<close>, \<open>create_watermark_pdf\<close>: the
  calls \<open>setFillColor\<close>, \<open>setFont\<close> and \<open>rotate\<close> that precede the drawing.\<close>

definition set_up_canvas :: "Canvas \<Rightarrow> DrawingOptions \<Rightarrow> Canvas" where
  "set_up_canvas watermark drawing_options =
     (let watermark1 =
            issue (SetFillColor (text_color drawing_options) (opacity drawing_options)) watermark;
          watermark2 =
            issue (SetFont (text_font drawing_options) (text_size drawing_options)) watermark1
      in issue (Rotate (angle drawing_options)) watermark2)"

text \<open>\<open>draw.py\<close>, \<open>draw_watermarks\<close>. The drawing options after the branch for Chinese
  text, then the function. The result is the canvas that \<open>save\<close> writes.\<close>

definition draw_font_options :: "'v environment \<Rightarrow> DrawingOptions \<Rightarrow> DrawingOptions" where
  "draw_font_options E drawing_options =
     (case text_opt drawing_options of
        None \<Rightarrow> drawing_options
      | Some t \<Rightarrow> if is_chinese t then choose_zh_font E drawing_options else drawing_options)"

definition draw_watermarks ::
  "'v environment \<Rightarrow> str \<Rightarrow> real \<Rightarrow> real \<Rightarrow> DrawingOptions \<Rightarrow> 'v specific_options
     \<Rightarrow> error + Canvas" where
  "draw_watermarks E name width height drawing_options specific_options =
     (let watermark = \<lparr>file_name = name, pagesize = (width, height), ops = []\<rparr>;
          rotation_matrix = rotation_matrix_of (angle drawing_options);
          drawing_options1 = draw_font_options E drawing_options;
          watermark1 = set_up_canvas watermark drawing_options1
      in (case specific_options of
            Insert insert_options \<Rightarrow>
              draw_insert_watermark E watermark1 drawing_options1 insert_options width height
                rotation_matrix
          | Grid grid_options \<Rightarrow>
              draw_grid_watermark E watermark1 drawing_options1 grid_options width height
                rotation_matrix
          | OtherOptions \<Rightarrow> Inl NotImplementedError_unknown_type))"

section \<open>Composition: \<open>handler.py\<close>\<close>

text \<open>What \<open>add_watermark_to_pdf\<close> takes from PyPDF4 and \<open>tempfile\<close>, for a type \<open>'page\<close>
  of PDF pages: the temporary file's name, a page's media box as width and height,
  \<open>mergePage\<close> (the page merged onto, then the page merged), and the first page of the
  file that reportlab writes for a saved canvas.\<close>

record 'page pdf_library =
  temporary_file_name :: str
  mediaBox :: "'page \<Rightarrow> real \<times> real"
  mergePage :: "'page \<Rightarrow> 'page \<Rightarrow> 'page"
  first_saved_page :: "Canvas \<Rightarrow> 'page"

text \<open>\<open>handler.py\<close>, \<open>add_watermark_to_pdf\<close>. The input file is given by the list of its
  pages and the result is the list of pages written to the output file. \<open>pages[0]\<close>
  raises on a file without pages. The loop adds each merged page to the writer.\<close>

definition add_watermark_to_pdf ::
  "'page pdf_library \<Rightarrow> 'v environment \<Rightarrow> 'page list \<Rightarrow> DrawingOptions \<Rightarrow> 'v specific_options
     \<Rightarrow> error + 'page list" where
  "add_watermark_to_pdf P E input_pages drawing_options specific_options =
     (case input_pages of
        [] \<Rightarrow> Inl IndexError
      | page0 # _ \<Rightarrow>
          (let (page_width, page_height) = mediaBox P page0
           in (case draw_watermarks E (temporary_file_name P) page_width page_height
                      drawing_options specific_options of
                 Inl e \<Rightarrow> Inl e
               | Inr watermark \<Rightarrow>
                   Inr (fold (\<lambda>page pdf_writer.
                               pdf_writer @ [mergePage P page (first_saved_page P watermark)])
                          input_pages []))))"

section \<open>The earlier grid-only path: \<open>utils.py\<close>\<close>

text \<open>A loop whose body may raise: the first error ends it.\<close>

fun fold_error :: "('a \<Rightarrow> 's \<Rightarrow> error + 's) \<Rightarrow> 'a list \<Rightarrow> 's \<Rightarrow> error + 's" where
  "fold_error f [] s = Inr s"
| "fold_error f (x # xs) s = (case f x s of Inl e \<Rightarrow> Inl e | Inr s1 \<Rightarrow> fold_error f xs s1)"

text \<open>\<open>utils.py\<close>, \<open>create_watermark_pdf\<close>. Its \<open>drawing_options\<close> (of \<open>app/objects.py\<close>,
  not in the source tree) carry the grid's fields as well; they are passed here as the
  two records. The body of the loops draws the text, then fits and draws the image.\<close>

definition create_cell ::
  "DrawingOptions \<Rightarrow> ndarray2 \<Rightarrow> bool \<Rightarrow> real \<Rightarrow> real \<Rightarrow> int \<Rightarrow> int \<Rightarrow> Canvas \<Rightarrow> error + Canvas" where
  "create_cell drawing_options rotation_matrix with_margin horizontal_box_spacing
       vertical_box_spacing x_index y_index watermark =
     (let (x_base, y_base) =
            cell_base with_margin horizontal_box_spacing vertical_box_spacing x_index y_index;
          (x_prime, y_prime) = change_base x_base y_base rotation_matrix;
          watermark1 =
            (case text_opt drawing_options of
               None \<Rightarrow> watermark
             | Some t \<Rightarrow> issue (DrawCentredString x_prime y_prime t) watermark)
      in (case image_opt drawing_options of
            None \<Rightarrow> Inr watermark1
          | Some img \<Rightarrow>
              (case fit_box (of_int (fst (getSize img))) (of_int (snd (getSize img)))
                      horizontal_box_spacing vertical_box_spacing (image_scale drawing_options) of
                 Inl e \<Rightarrow> Inl e
               | Inr (image_width, image_height) \<Rightarrow>
                   Inr (draw_centered_image watermark1 x_prime y_prime image_width image_height
                          img))))"

text \<open>The drawing options after the branch for Chinese text of \<open>create_watermark_pdf\<close>:
  the font is kept when it is among the Chinese fonts found, else the first of them is
  taken.\<close>

definition utils_font_options :: "'v environment \<Rightarrow> DrawingOptions \<Rightarrow> DrawingOptions" where
  "utils_font_options E drawing_options =
     (case text_opt drawing_options of
        None \<Rightarrow> drawing_options
      | Some t \<Rightarrow>
          (let zh_fonts = get_all_zh_font E
           in if is_chinese t \<and> length zh_fonts > 0 then
                drawing_options\<lparr>text_font :=
                  (if text_font drawing_options \<notin> set zh_fonts then zh_fonts ! 0
                   else text_font drawing_options)\<rparr>
              else drawing_options))"

definition create_watermark_pdf ::
  "'v environment \<Rightarrow> str \<Rightarrow> real \<Rightarrow> real \<Rightarrow> DrawingOptions \<Rightarrow> GridOptions \<Rightarrow> error + Canvas" where
  "create_watermark_pdf E name width height drawing_options grid_options =
     (let watermark = \<lparr>file_name = name, pagesize = (width, height), ops = []\<rparr>
      in
      (case py_div width (of_int (horizontal_boxes grid_options)) of
         Inl e \<Rightarrow> Inl e
       | Inr horizontal_box_spacing \<Rightarrow>
      (case py_div height (of_int (vertical_boxes grid_options)) of
         Inl e \<Rightarrow> Inl e
       | Inr vertical_box_spacing \<Rightarrow>
          (let rotation_matrix = rotation_matrix_of (angle drawing_options);
               drawing_options1 = utils_font_options E drawing_options;
               watermark1 = set_up_canvas watermark drawing_options1;
               start_index = (if margin grid_options then 1 else 0)
           in fold_error (\<lambda>x_index. fold_error
                  (create_cell drawing_options1 rotation_matrix (margin grid_options)
                     horizontal_box_spacing vertical_box_spacing x_index)
                  [start_index..vertical_boxes grid_options])
                [start_index..horizontal_boxes grid_options] watermark1))))"

text \<open>\<open>utils.py\<close>, \<open>add_watermark_to_pdf\<close>.\<close>

definition utils_add_watermark_to_pdf ::
  "'page pdf_library \<Rightarrow> 'v environment \<Rightarrow> 'page list \<Rightarrow> DrawingOptions \<Rightarrow> GridOptions
     \<Rightarrow> error + 'page list" where
  "utils_add_watermark_to_pdf P E input_pages drawing_options grid_options =
     (case input_pages of
        [] \<Rightarrow> Inl IndexError
      | page0 # _ \<Rightarrow>
          (let (page_width, page_height) = mediaBox P page0
           in (case create_watermark_pdf E (temporary_file_name P) page_width page_height
                      drawing_options grid_options of
                 Inl e \<Rightarrow> Inl e
               | Inr watermark \<Rightarrow>
                   Inr (fold (\<lambda>page pdf_writer.
                               pdf_writer @ [mergePage P page (first_saved_page P watermark)])
                          input_pages []))))"

section \<open>Notions the theorems are stated with\<close>

text \<open>The canvas after one call of \<open>draw_one_watermark\<close> at each point of a list, in
  order.\<close>

definition draw_instances ::
  "(real \<times> real) list \<Rightarrow> ndarray2 \<Rightarrow> DrawingOptions \<Rightarrow> real \<Rightarrow> real \<Rightarrow> Canvas \<Rightarrow> Canvas" where
  "draw_instances cells rotation_matrix drawing_options image_width image_height =
     fold (\<lambda>(x, y) canvas.
             draw_one_watermark canvas x y rotation_matrix drawing_options image_width
               image_height)
       cells"

text \<open>The number of canvas operations of one watermark instance: one for the text, one
  for the image.\<close>

definition instance_ops :: "DrawingOptions \<Rightarrow> nat" where
  "instance_ops drawing_options =
     (if text_opt drawing_options = None then 0 else 1)
       + (if image_opt drawing_options = None then 0 else 1)"

text \<open>The coordinates that the nested loops of the grid compute, in the order the loops
  visit them.\<close>

definition grid_cells :: "GridOptions \<Rightarrow> real \<Rightarrow> real \<Rightarrow> (real \<times> real) list" where
  "grid_cells g w h =
     [cell_base (margin g) (w / of_int (horizontal_boxes g)) (h / of_int (vertical_boxes g)) i j.
        i \<leftarrow> [(if margin g then 1 else 0)..horizontal_boxes g],
        j \<leftarrow> [(if margin g then 1 else 0)..vertical_boxes g]]"

text \<open>The ratio of a width to a height; there is none when the height is zero.\<close>

definition ratio :: "real \<Rightarrow> real \<Rightarrow> real option" where
  "ratio width height = (if height = 0 then None else Some (width / height))"

text \<open>Concrete inputs: an environment whose \<open>fit_image\<close> is the box fitting of
  \<open>create_watermark_pdf\<close>, an empty canvas, and drawing options with a text only, with
  an image only, and with neither.\<close>

definition example_env :: "string environment" where
  "example_env =
     \<lparr>Alignments_value =
        (\<lambda>a. case a of LEFT \<Rightarrow> ''left'' | RIGHT \<Rightarrow> ''right'' | CENTER \<Rightarrow> ''center''),
      stringWidth = (\<lambda>t font size. size * real (length t) / 2),
      fit_image = (\<lambda>w h mw mh s. case fit_box w h mw mh s of Inl e \<Rightarrow> (0, 0) | Inr p \<Rightarrow> p),
      platform_system = [76, 105, 110, 117, 120],
      get_all_zh_font = []\<rparr>"

definition blank :: Canvas where
  "blank = \<lparr>file_name = [], pagesize = (100, 100), ops = []\<rparr>"

definition text_only :: DrawingOptions where
  "text_only =
     \<lparr>text_opt = Some [97], text_font = [], text_size = 12, text_color = [], opacity = 1,
      angle = 0, image_opt = None, image_scale = 1\<rparr>"

definition image_only :: DrawingOptions where
  "image_only =
     text_only\<lparr>text_opt := None, image_opt := Some (ImageReader [] (200, 100)),
               image_scale := 2\<rparr>"

definition no_watermark :: DrawingOptions where
  "no_watermark = text_only\<lparr>text_opt := None\<rparr>"

text \<open>A PDF library over pages that are lists of canvas operations: merging appends the
  operations of the merged page.\<close>

definition example_pdf :: "canvas_op list pdf_library" where
  "example_pdf =
     \<lparr>temporary_file_name = [], mediaBox = (\<lambda>page. (100, 100)), mergePage = (\<lambda>page other. page @ other),
      first_saved_page = ops\<rparr>"

section \<open>Auxiliary facts\<close>

subsection \<open>Box fitting\<close>

lemma shrink_to_box_positive:
  assumes "0 < w" "0 < h" "0 < mw" "0 < mh"
  shows "shrink_to_box w h mw mh =
     Inr (if w > mw
          then (if h * (mw / w) > mh then (mw * (mh / (h * (mw / w))), mh) else (mw, h * (mw / w)))
          else (if h > mh then (w * (mh / h), mh) else (w, h)))"
  using assms by (simp add: shrink_to_box_def py_div_def)

lemma shrink_to_box_ratio:
  assumes "0 < w" "0 < h" "0 < mw" "0 < mh"
  shows "\<exists>r. 0 < r \<and> r \<le> 1 \<and> r * w \<le> mw \<and> r * h \<le> mh
           \<and> shrink_to_box w h mw mh = Inr (r * w, r * h)"
proof -
  consider (both) "w > mw" "h * (mw / w) > mh"
    | (wide) "w > mw" "\<not> h * (mw / w) > mh"
    | (tall) "\<not> w > mw" "h > mh"
    | (fits) "\<not> w > mw" "\<not> h > mh"
    by blast
  then show ?thesis
  proof cases
    case both
    have lt: "mh * w < h * mw" using both assms by (simp add: field_simps)
    have "h * mw < h * w" using both assms by simp
    with lt have "mh * w < h * w" by simp
    then have mhh: "mh < h" using assms by simp
    have eq: "shrink_to_box w h mw mh = Inr (mh / h * w, mh / h * h)"
      using both assms by (simp add: shrink_to_box_positive field_simps)
    have "mh / h * w \<le> mw" using lt assms by (simp add: field_simps)
    then show ?thesis using eq mhh assms
      by (intro exI[of _ "mh / h"]) simp
  next
    case wide
    have eq: "shrink_to_box w h mw mh = Inr (mw / w * w, mw / w * h)"
      using wide assms by (simp add: shrink_to_box_positive field_simps)
    have "mw / w * h \<le> mh" using wide by (simp add: field_simps)
    then show ?thesis using eq wide assms
      by (intro exI[of _ "mw / w"]) simp
  next
    case tall
    have eq: "shrink_to_box w h mw mh = Inr (mh / h * w, mh / h * h)"
      using tall assms by (simp add: shrink_to_box_positive field_simps)
    have "mh * w \<le> h * mw" using tall assms by (smt (verit) mult_mono mult.commute)
    then have "mh / h * w \<le> mw" using assms by (simp add: field_simps)
    then show ?thesis using eq tall assms
      by (intro exI[of _ "mh / h"]) simp
  next
    case fits
    then show ?thesis using assms
      by (intro exI[of _ 1]) (simp add: shrink_to_box_positive)
  qed
qed

subsection \<open>The grid\<close>

lemma fold_cells:
  "fold (\<lambda>i. fold (\<lambda>j canvas. F canvas (fst (g i j)) (snd (g i j))) ys) xs c =
   fold (\<lambda>(x, y) canvas. F canvas x y) (concat (map (\<lambda>i. map (g i) ys) xs)) c"
  by (induction xs arbitrary: c) (simp_all add: fold_map comp_def split_beta)

lemma draw_grid_watermark_cells:
  assumes "horizontal_boxes g \<noteq> 0" "vertical_boxes g \<noteq> 0"
  shows "draw_grid_watermark E c d g w h R =
    Inr (draw_instances (grid_cells g w h) R d
          (fst (grid_image_size E d (w / of_int (horizontal_boxes g)) (h / of_int (vertical_boxes g))))
          (snd (grid_image_size E d (w / of_int (horizontal_boxes g)) (h / of_int (vertical_boxes g))))
          c)"
proof -
  let ?hbs = "w / of_int (horizontal_boxes g)" and ?vbs = "h / of_int (vertical_boxes g)"
  let ?s = "if margin g then 1 else (0::int)"
  let ?iw = "fst (grid_image_size E d ?hbs ?vbs)" and ?ih = "snd (grid_image_size E d ?hbs ?vbs)"
  have "draw_grid_watermark E c d g w h R =
      Inr (fold (\<lambda>i. fold (\<lambda>j canvas. draw_one_watermark canvas
                 (fst (cell_base (margin g) ?hbs ?vbs i j)) (snd (cell_base (margin g) ?hbs ?vbs i j))
                 R d ?iw ?ih) [?s..vertical_boxes g]) [?s..horizontal_boxes g] c)"
    using assms by (simp add: draw_grid_watermark_def py_div_def split_beta)
  also have "\<dots> = Inr (draw_instances (grid_cells g w h) R d ?iw ?ih c)"
    unfolding draw_instances_def grid_cells_def
    by (simp only: fold_cells [where F = "\<lambda>canvas x y. draw_one_watermark canvas x y R d ?iw ?ih"
          and g = "cell_base (margin g) ?hbs ?vbs"])
  finally show ?thesis .
qed

lemma draw_grid_watermark_zero:
  "horizontal_boxes g = 0 \<or> vertical_boxes g = 0
     \<Longrightarrow> draw_grid_watermark E c d g w h R = Inl ZeroDivisionError"
  by (auto simp: draw_grid_watermark_def py_div_def)

lemma ops_draw_one_watermark:
  "ops (draw_one_watermark c x y R d iw ih) =
     ops c
     @ (case text_opt d of
          None \<Rightarrow> []
        | Some t \<Rightarrow> [DrawCentredString (fst (change_base x y R)) (snd (change_base x y R)) t])
     @ (case image_opt d of
          None \<Rightarrow> []
        | Some img \<Rightarrow>
            [DrawImage img (fst (change_base x y R) - iw / 2) (snd (change_base x y R) - ih / 2)
               iw ih])"
  by (simp add: draw_one_watermark_def draw_centered_image_def issue_def split_beta
        split: option.splits)

lemma length_draw_one_watermark:
  "length (ops (draw_one_watermark c x y R d iw ih)) = length (ops c) + instance_ops d"
  by (simp add: ops_draw_one_watermark instance_ops_def split: option.splits)

lemma length_draw_instances:
  "length (ops (draw_instances cells R d iw ih c)) = length (ops c) + length cells * instance_ops d"
  by (induction cells arbitrary: c)
     (simp_all add: draw_instances_def length_draw_one_watermark split_beta)

lemma length_grid_cells:
  "length (grid_cells g w h) =
     nat (horizontal_boxes g + 1 - (if margin g then 1 else 0))
       * nat (vertical_boxes g + 1 - (if margin g then 1 else 0))"
  by (simp add: grid_cells_def length_concat comp_def sum_list_triv algebra_simps)

subsection \<open>The insert\<close>

lemma Alignments_value_distinct:
  assumes "inj (Alignments_value E)"
  shows "Alignments_value E RIGHT \<noteq> Alignments_value E LEFT"
    and "Alignments_value E CENTER \<noteq> Alignments_value E LEFT"
    and "Alignments_value E CENTER \<noteq> Alignments_value E RIGHT"
  using assms by (auto dest: injD)

lemma max_image_width_of_member:
  assumes "inj (Alignments_value E)" and "horizontal_alignment so = Alignments_value E a"
  shows "max_image_width E so w =
           Inr (case a of
                  LEFT \<Rightarrow> insert_x so * w
                | RIGHT \<Rightarrow> (1 - insert_x so) * w
                | CENTER \<Rightarrow> min (2 * (1 - insert_x so) * w) (2 * insert_x so * w))"
  using assms(2) Alignments_value_distinct [OF assms(1)]
  by (cases a) (simp_all add: max_image_width_def)

lemma alignment_offset_of_member:
  assumes "inj (Alignments_value E)" and "horizontal_alignment so = Alignments_value E a"
  shows "alignment_offset E so ww =
      Inr (case a of LEFT \<Rightarrow> - (ww / 2) | RIGHT \<Rightarrow> ww / 2 | CENTER \<Rightarrow> 0)"
  using assms(2) Alignments_value_distinct [OF assms(1)]
  by (cases a) (simp_all add: alignment_offset_def)

lemma inj_example_env: "inj (Alignments_value example_env)"
  by (rule injI) (auto simp: example_env_def split: Alignments.splits)

subsection \<open>The composition\<close>

lemma fold_writer:
  "fold (\<lambda>page pdf_writer. pdf_writer @ [f page]) pages written = written @ map f pages"
  by (induction pages arbitrary: written) simp_all

lemma draw_watermarks_example:
  "draw_watermarks example_env [] 100 100 text_only
     (Grid \<lparr>horizontal_boxes = 1, vertical_boxes = 1, margin = True\<rparr>)
   = Inr (blank\<lparr>ops := [SetFillColor [] 1, SetFont [] 12, Rotate 0, DrawCentredString 50 50 [97]]\<rparr>)"
  by (simp add: draw_watermarks_def draw_font_options_def set_up_canvas_def text_only_def
      issue_def rotation_matrix_of_def draw_grid_watermark_def py_div_def grid_image_size_def
      cell_base_def draw_one_watermark_def change_base_def blank_def)

subsection \<open>The earlier grid-only path\<close>

text \<open>\<open>create_watermark_pdf\<close> runs the same loops as \<open>draw_grid_watermark\<close>: when the
  box counts are not zero and the fitting of the image does not raise, it draws one
  instance at each coordinate of the grid, on the canvas set up for the page.\<close>

lemma fold_error_total:
  "(\<And>x s. f x s = Inr (g x s)) \<Longrightarrow> fold_error f xs s = Inr (fold g xs s)"
  by (induction xs arbitrary: s) simp_all

lemma create_cell_fitted:
  assumes "case image_opt d of
             None \<Rightarrow> True
           | Some img \<Rightarrow>
               fit_box (of_int (fst (getSize img))) (of_int (snd (getSize img))) hbs vbs
                 (image_scale d) = Inr (iw, ih)"
  shows "create_cell d R m hbs vbs i j c =
           Inr (draw_one_watermark c (fst (cell_base m hbs vbs i j)) (snd (cell_base m hbs vbs i j))
                  R d iw ih)"
  using assms
  by (simp add: create_cell_def draw_one_watermark_def split_beta split: option.splits)

lemma utils_font_options_keeps:
  "image_opt (utils_font_options E d) = image_opt d"
  "image_scale (utils_font_options E d) = image_scale d"
  "text_opt (utils_font_options E d) = text_opt d"
  by (simp_all add: utils_font_options_def Let_def split: option.splits)

lemma create_watermark_pdf_cells:
  assumes "horizontal_boxes g \<noteq> 0" "vertical_boxes g \<noteq> 0"
      and "case image_opt d of
             None \<Rightarrow> True
           | Some img \<Rightarrow>
               fit_box (of_int (fst (getSize img))) (of_int (snd (getSize img)))
                 (w / of_int (horizontal_boxes g)) (h / of_int (vertical_boxes g))
                 (image_scale d) = Inr (iw, ih)"
  shows "create_watermark_pdf E name w h d g =
           Inr (draw_instances (grid_cells g w h) (rotation_matrix_of (angle d))
                  (utils_font_options E d) iw ih
                  (set_up_canvas \<lparr>file_name = name, pagesize = (w, h), ops = []\<rparr>
                     (utils_font_options E d)))"
proof -
  let ?hbs = "w / of_int (horizontal_boxes g)" and ?vbs = "h / of_int (vertical_boxes g)"
  let ?s = "if margin g then 1 else (0::int)"
  let ?d = "utils_font_options E d" and ?R = "rotation_matrix_of (angle d)"
  let ?step = "\<lambda>i j canvas. draw_one_watermark canvas
                 (fst (cell_base (margin g) ?hbs ?vbs i j)) (snd (cell_base (margin g) ?hbs ?vbs i j))
                 ?R ?d iw ih"
  have cell: "create_cell ?d ?R (margin g) ?hbs ?vbs i j c = Inr (?step i j c)" for i j c
    using assms(3)
    by (intro create_cell_fitted) (simp add: utils_font_options_keeps split: option.splits)
  have row: "fold_error (create_cell ?d ?R (margin g) ?hbs ?vbs i) js c = Inr (fold (?step i) js c)"
    for i js c
    by (rule fold_error_total) (rule cell)
  have "create_watermark_pdf E name w h d g =
      Inr (fold (\<lambda>i. fold (?step i) [?s..vertical_boxes g]) [?s..horizontal_boxes g]
             (set_up_canvas \<lparr>file_name = name, pagesize = (w, h), ops = []\<rparr> ?d))"
    using assms(1,2)
    by (simp add: create_watermark_pdf_def py_div_def Let_def row fold_error_total)
  also have "\<dots> = Inr (draw_instances (grid_cells g w h) ?R ?d iw ih
             (set_up_canvas \<lparr>file_name = name, pagesize = (w, h), ops = []\<rparr> ?d))"
    unfolding draw_instances_def grid_cells_def
    by (simp only: fold_cells [where F = "\<lambda>canvas x y. draw_one_watermark canvas x y ?R ?d iw ih"
          and g = "cell_base (margin g) ?hbs ?vbs"])
  finally show ?thesis .
qed

lemma create_watermark_pdf_zero:
  "horizontal_boxes g = 0 \<or> vertical_boxes g = 0
     \<Longrightarrow> create_watermark_pdf E name w h d g = Inl ZeroDivisionError"
  by (auto simp: create_watermark_pdf_def py_div_def)

text \<open>The earlier \<open>add_watermark_to_pdf\<close> merges the watermark onto each page in order,
  as the later one does.\<close>

lemma utils_add_watermark_pages:
  assumes "input_pages \<noteq> []"
      and "create_watermark_pdf E (temporary_file_name P) (fst (mediaBox P (hd input_pages)))
             (snd (mediaBox P (hd input_pages))) d g = Inr watermark"
  shows "utils_add_watermark_to_pdf P E input_pages d g =
           Inr (map (\<lambda>page. mergePage P page (first_saved_page P watermark)) input_pages)"
proof -
  obtain page0 rest where pages: "input_pages = page0 # rest"
    using assms(1) by (cases input_pages) auto
  show ?thesis
    using assms(2) unfolding pages utils_add_watermark_to_pdf_def
    by (simp add: split_beta fold_writer)
qed

lemma utils_add_watermark_empty:
  "utils_add_watermark_to_pdf P E [] d g = Inl IndexError"
  by (simp add: utils_add_watermark_to_pdf_def)

section \<open>Theorems\<close>

text \<open>C1: for every point \<open>(x, y)\<close> and every angle \<open>theta\<close> in degrees, \<open>change_base\<close>
  applied to the rotation matrix of \<open>theta\<close> returns the product of the transposed matrix
  with the point, that is \<open>(x cos t + y sin t, - x sin t + y cos t)\<close> where \<open>t\<close> is
  \<open>theta\<close> in radians.\<close>

theorem change_base_rotation:
  "rotation_matrix_of theta =
     ((cos (theta * pi / 180), - sin (theta * pi / 180)),
      (sin (theta * pi / 180), cos (theta * pi / 180)))
   \<and> change_base x y (rotation_matrix_of theta) =
       np_matmul_column (np_transpose (rotation_matrix_of theta)) (x, y)
   \<and> change_base x y (rotation_matrix_of theta) =
       (x * cos (theta * pi / 180) + y * sin (theta * pi / 180),
        - x * sin (theta * pi / 180) + y * cos (theta * pi / 180))"
  by (simp add: change_base_def rotation_matrix_of_def Let_def mult.commute)

theorem change_base_rotation_witness:
  "change_base 3 4 (rotation_matrix_of 0) = (3, 4)
   \<and> change_base 3 4 (rotation_matrix_of 90) = (4, - 3)"
  using change_base_rotation [of 0 3 4, THEN conjunct2, THEN conjunct2]
    change_base_rotation [of 90 3 4, THEN conjunct2, THEN conjunct2]
  by simp

text \<open>C2: for an image of positive width and height, a box of positive width and height
  and any scale factor, the two shrinking steps return dimensions that fit the box and
  are the image's dimensions times one ratio between 0 and 1, and the result of the whole
  fitting is these dimensions times the scale factor.\<close>

theorem box_fit_fits:
  assumes "0 < w" "0 < h" "0 < mw" "0 < mh"
  shows "\<exists>fw fh r. shrink_to_box w h mw mh = Inr (fw, fh)
           \<and> fw \<le> mw \<and> fh \<le> mh
           \<and> 0 < r \<and> r \<le> 1 \<and> fw = r * w \<and> fh = r * h
           \<and> fit_box w h mw mh s = Inr (fw * s, fh * s)"
proof -
  obtain r where r: "0 < r" "r \<le> 1" "r * w \<le> mw" "r * h \<le> mh"
      "shrink_to_box w h mw mh = Inr (r * w, r * h)"
    using shrink_to_box_ratio [OF assms] by blast
  have "fit_box w h mw mh s = Inr (r * w * s, r * h * s)"
    using r(5) by (simp add: fit_box_def)
  with r show ?thesis by blast
qed

theorem box_fit_fits_witness:
  "shrink_to_box 200 100 50 50 = Inr (50, 25) \<and> fit_box 200 100 50 50 2 = Inr (100, 50)"
  using box_fit_fits [of 200 100 50 50 2]
  by (simp add: shrink_to_box_def fit_box_def py_div_def)

text \<open>C9, as amended: for an image of positive width and height, a box of positive
  width and height and a scale factor other than zero, the width and height after the
  shrinking steps have the ratio of the image's width and height, and so have the width
  and height after the scale factor is applied.\<close>

theorem box_fit_aspect_ratio:
  assumes "0 < w" "0 < h" "0 < mw" "0 < mh" "s \<noteq> 0"
  shows "\<exists>fw fh ow oh. shrink_to_box w h mw mh = Inr (fw, fh)
           \<and> fit_box w h mw mh s = Inr (ow, oh)
           \<and> ratio w h = Some (w / h)
           \<and> ratio fw fh = ratio w h
           \<and> ratio ow oh = ratio w h"
proof -
  obtain r where r: "0 < r" "shrink_to_box w h mw mh = Inr (r * w, r * h)"
    using shrink_to_box_ratio [OF assms(1-4)] by blast
  have f: "fit_box w h mw mh s = Inr (r * w * s, r * h * s)"
    using r(2) by (simp add: fit_box_def)
  have "ratio w h = Some (w / h)"
    using assms by (simp add: ratio_def)
  moreover have "ratio (r * w) (r * h) = ratio w h"
    using r(1) assms by (simp add: ratio_def)
  moreover have "ratio (r * w * s) (r * h * s) = ratio w h"
    using r(1) assms by (simp add: ratio_def)
  ultimately show ?thesis using r(2) f by blast
qed

theorem box_fit_aspect_ratio_witness:
  "shrink_to_box 200 100 50 50 = Inr (50, 25) \<and> ratio 50 25 = ratio 200 100
     \<and> fit_box 200 100 50 50 3 = Inr (150, 75) \<and> ratio 150 75 = ratio 200 100"
  using box_fit_aspect_ratio [of 200 100 50 50 3]
  by (simp add: shrink_to_box_def fit_box_def py_div_def ratio_def)

text \<open>C9 as stated fails for the scale factor zero: the fitted image is then zero wide
  and zero high, and has no ratio of width to height.\<close>

theorem box_fit_zero_scale_counterexample:
  "fit_box 200 100 50 50 0 = Inr (0, 0) \<and> ratio 0 0 = None \<and> ratio 200 100 = Some 2"
  by (simp add: shrink_to_box_def fit_box_def py_div_def ratio_def)

text \<open>C3, as amended: for a grid with positive \<open>horizontal_boxes\<close> and \<open>vertical_boxes\<close>,
  \<open>draw_grid_watermark\<close> returns the canvas with one watermark instance drawn at each
  cell coordinate the loops visit; there are \<open>(horizontal_boxes + 1) * (vertical_boxes + 1)\<close>
  of them when the margin flag is unset and \<open>horizontal_boxes * vertical_boxes\<close> when it
  is set, and each adds to the canvas one operation for the text and one for the
  image.\<close>

theorem grid_instance_count:
  assumes "0 < horizontal_boxes g" "0 < vertical_boxes g"
  shows "\<exists>c'. draw_grid_watermark E c d g w h R = Inr c'
           \<and> c' = draw_instances (grid_cells g w h) R d
                (fst (grid_image_size E d (w / of_int (horizontal_boxes g))
                        (h / of_int (vertical_boxes g))))
                (snd (grid_image_size E d (w / of_int (horizontal_boxes g))
                        (h / of_int (vertical_boxes g)))) c
           \<and> length (grid_cells g w h) =
               nat (if margin g then horizontal_boxes g * vertical_boxes g
                    else (horizontal_boxes g + 1) * (vertical_boxes g + 1))
           \<and> length (ops c') = length (ops c) + length (grid_cells g w h) * instance_ops d"
proof -
  have "length (grid_cells g w h) =
      nat (if margin g then horizontal_boxes g * vertical_boxes g
           else (horizontal_boxes g + 1) * (vertical_boxes g + 1))"
    using assms by (simp add: length_grid_cells nat_mult_distrib)
  then show ?thesis using assms
    by (simp add: draw_grid_watermark_cells length_draw_instances)
qed

theorem grid_instance_count_witness:
  "(\<exists>c'. draw_grid_watermark example_env blank text_only
            \<lparr>horizontal_boxes = 2, vertical_boxes = 1, margin = False\<rparr> 100 100 ((1, 0), (0, 1))
          = Inr c'
          \<and> length (ops c') = 6)
   \<and> (\<exists>c'. draw_grid_watermark example_env blank text_only
            \<lparr>horizontal_boxes = 2, vertical_boxes = 1, margin = True\<rparr> 100 100 ((1, 0), (0, 1))
          = Inr c'
          \<and> length (ops c') = 2)"
  using grid_instance_count [of "\<lparr>horizontal_boxes = 2, vertical_boxes = 1, margin = False\<rparr>"
          example_env blank text_only 100 100 "((1, 0), (0, 1))"]
        grid_instance_count [of "\<lparr>horizontal_boxes = 2, vertical_boxes = 1, margin = True\<rparr>"
          example_env blank text_only 100 100 "((1, 0), (0, 1))"]
  by (auto simp: instance_ops_def text_only_def blank_def)

text \<open>C3 as stated fails when the margin flag is set: with one box each way, a text and
  no image, one instance is drawn, at the centre of the page, where the claim has
  \<open>(1 + 1) * (1 + 1)\<close>.\<close>

theorem grid_margin_counterexample:
  "draw_grid_watermark example_env blank text_only
      \<lparr>horizontal_boxes = 1, vertical_boxes = 1, margin = True\<rparr> 100 100 ((1, 0), (0, 1))
     = Inr (blank\<lparr>ops := [DrawCentredString 50 50 [97]]\<rparr>)
   \<and> length (ops (blank\<lparr>ops := [DrawCentredString 50 50 [97]]\<rparr>)) \<noteq> (1 + 1) * (1 + 1)"
  by (simp add: draw_grid_watermark_def py_div_def grid_image_size_def text_only_def cell_base_def
       draw_one_watermark_def change_base_def issue_def blank_def)

text \<open>C4: \<open>draw_grid_watermark\<close> raises on a zero box count and otherwise draws one
  instance at each coordinate of the grid before rotation. With the margin flag unset
  these are \<open>(i * (w / hb), j * (h / vb))\<close> for \<open>i\<close> from 0 to \<open>hb\<close> and \<open>j\<close> from 0 to \<open>vb\<close>;
  with the flag set they are \<open>(i * (w / hb) - w / (2 * hb), j * (h / vb) - h / (2 * vb))\<close>
  for \<open>i\<close> from 1 to \<open>hb\<close> and \<open>j\<close> from 1 to \<open>vb\<close>.\<close>

theorem grid_coordinates:
  "draw_grid_watermark E c d g w h R =
     (if horizontal_boxes g = 0 \<or> vertical_boxes g = 0 then Inl ZeroDivisionError
      else Inr (draw_instances (grid_cells g w h) R d
             (fst (grid_image_size E d (w / of_int (horizontal_boxes g))
                     (h / of_int (vertical_boxes g))))
             (snd (grid_image_size E d (w / of_int (horizontal_boxes g))
                     (h / of_int (vertical_boxes g)))) c))
   \<and> grid_cells g w h =
       (if margin g
        then [(of_int i * (w / of_int (horizontal_boxes g)) - w / (2 * of_int (horizontal_boxes g)),
               of_int j * (h / of_int (vertical_boxes g)) - h / (2 * of_int (vertical_boxes g))).
                i \<leftarrow> [1..horizontal_boxes g], j \<leftarrow> [1..vertical_boxes g]]
        else [(of_int i * (w / of_int (horizontal_boxes g)),
               of_int j * (h / of_int (vertical_boxes g))).
                i \<leftarrow> [0..horizontal_boxes g], j \<leftarrow> [0..vertical_boxes g]])"
proof (cases "horizontal_boxes g = 0 \<or> vertical_boxes g = 0")
  case True
  then show ?thesis
    by (simp add: draw_grid_watermark_zero grid_cells_def cell_base_def mult.commute)
next
  case False
  then show ?thesis
    by (simp add: draw_grid_watermark_cells grid_cells_def cell_base_def mult.commute)
qed

theorem grid_coordinates_witness:
  "grid_cells \<lparr>horizontal_boxes = 2, vertical_boxes = 1, margin = True\<rparr> 100 60
     = [(25, 30), (75, 30)]
   \<and> grid_cells \<lparr>horizontal_boxes = 2, vertical_boxes = 1, margin = False\<rparr> 100 60
     = [(0, 0), (0, 60), (50, 0), (50, 60), (100, 0), (100, 60)]"
  using grid_coordinates [of example_env blank text_only
          "\<lparr>horizontal_boxes = 2, vertical_boxes = 1, margin = True\<rparr>" 100 60 "((1, 0), (0, 1))"]
        grid_coordinates [of example_env blank text_only
          "\<lparr>horizontal_boxes = 2, vertical_boxes = 1, margin = False\<rparr>" 100 60 "((1, 0), (0, 1))"]
  by (simp add: upto_rec1)

text \<open>C5: for an insert whose alignment is the value of a member \<open>a\<close> of \<open>Alignments\<close>
  (distinct members having distinct values) and whose drawing options have a text or an
  image, the one instance is drawn at \<open>(x * w + offset, y * h)\<close>, where the offset is
  minus half the watermark's width for \<open>LEFT\<close>, half of it for \<open>RIGHT\<close> and zero for
  \<open>CENTER\<close>; the watermark's width is the string's width when there is a text and the
  fitted image's width otherwise.\<close>

theorem insert_anchor:
  assumes "inj (Alignments_value E)"
      and "horizontal_alignment so = Alignments_value E a"
      and "text_opt d \<noteq> None \<or> image_opt d \<noteq> None"
  shows "\<exists>watermark_width image_width image_height.
           watermark_size E d so w h = Inr (watermark_width, image_width, image_height)
         \<and> watermark_width =
             (case text_opt d of
                Some t \<Rightarrow> stringWidth E t (text_font d) (text_size d)
              | None \<Rightarrow> image_width)
         \<and> draw_insert_watermark E c d so w h R =
             Inr (draw_one_watermark c
                   (insert_x so * w
                      + (case a of LEFT \<Rightarrow> - (watermark_width / 2)
                                 | RIGHT \<Rightarrow> watermark_width / 2
                                 | CENTER \<Rightarrow> 0))
                   (insert_y so * h) R d image_width image_height)"
proof (cases "text_opt d")
  case (Some t)
  then show ?thesis
    by (simp add: watermark_size_def draw_insert_watermark_def
          alignment_offset_of_member [OF assms(1,2)])
next
  case None
  with assms(3) obtain img where img: "image_opt d = Some img" by auto
  obtain m where m: "max_image_width E so w = Inr m"
    using max_image_width_of_member [OF assms(1,2)] by blast
  obtain iw ih where fit:
    "fit_image E (of_int (fst (getSize img))) (of_int (snd (getSize img))) m
       (max_image_height so h) (image_scale d) = (iw, ih)"
    by (cases "fit_image E (of_int (fst (getSize img))) (of_int (snd (getSize img))) m
       (max_image_height so h) (image_scale d)")
  show ?thesis using None img m fit
    by (simp add: watermark_size_def draw_insert_watermark_def
          alignment_offset_of_member [OF assms(1,2)])
qed

theorem insert_anchor_witness:
  "inj (Alignments_value example_env)
   \<and> draw_insert_watermark example_env blank text_only
        \<lparr>insert_x = 1 / 2, insert_y = 1 / 2, horizontal_alignment = Alignments_value example_env RIGHT\<rparr>
        100 100 ((1, 0), (0, 1))
      = Inr (draw_one_watermark blank (1 / 2 * 100 + 6 / 2) (1 / 2 * 100) ((1, 0), (0, 1))
               text_only 0 0)
   \<and> draw_insert_watermark example_env blank image_only
        \<lparr>insert_x = 1 / 2, insert_y = 1 / 2, horizontal_alignment = Alignments_value example_env LEFT\<rparr>
        100 100 ((1, 0), (0, 1))
      = Inr (draw_one_watermark blank (1 / 2 * 100 - 100 / 2) (1 / 2 * 100) ((1, 0), (0, 1))
               image_only 100 50)"
  using inj_example_env
    insert_anchor [OF inj_example_env, of
      "\<lparr>insert_x = 1 / 2, insert_y = 1 / 2, horizontal_alignment = Alignments_value example_env RIGHT\<rparr>"
      RIGHT text_only 100 100 blank "((1, 0), (0, 1))"]
    insert_anchor [OF inj_example_env, of
      "\<lparr>insert_x = 1 / 2, insert_y = 1 / 2, horizontal_alignment = Alignments_value example_env LEFT\<rparr>"
      LEFT image_only 100 100 blank "((1, 0), (0, 1))"]
  by (simp add: watermark_size_def max_image_width_def max_image_height_def text_only_def
        image_only_def example_env_def fit_box_def shrink_to_box_def py_div_def)

text \<open>C6: \<open>is_chinese t\<close> holds exactly when some character of \<open>t\<close> lies between
  U+4E00 and U+9FFF inclusive; it is false for the empty string.\<close>

theorem is_chinese_iff:
  "(is_chinese t \<longleftrightarrow> (\<exists>ch \<in> set t. 0x4E00 \<le> ch \<and> ch \<le> 0x9FFF)) \<and> \<not> is_chinese []"
  by (induction t) auto

theorem is_chinese_iff_witness:
  "is_chinese [0x61, 0x4E2D, 0x62] \<and> \<not> is_chinese [0x61, 0x62] \<and> \<not> is_chinese []"
  using is_chinese_iff [of "[0x61, 0x4E2D, 0x62]"] is_chinese_iff [of "[0x61, 0x62]"]
  by simp

text \<open>C7, as amended: for an input file with at least one page, when drawing the
  watermark on a canvas of the first page's size returns the canvas \<open>watermark\<close>,
  \<open>add_watermark_to_pdf\<close> returns as many pages as the input has, in the same order, each
  the input page at that position with the first page of the saved watermark merged
  onto it.\<close>

theorem add_watermark_pages:
  assumes "input_pages \<noteq> []"
      and "draw_watermarks E (temporary_file_name P) (fst (mediaBox P (hd input_pages)))
             (snd (mediaBox P (hd input_pages))) d so = Inr watermark"
  shows "\<exists>output_pages.
           add_watermark_to_pdf P E input_pages d so = Inr output_pages
         \<and> length output_pages = length input_pages
         \<and> (\<forall>i < length input_pages.
               output_pages ! i = mergePage P (input_pages ! i) (first_saved_page P watermark))"
proof -
  obtain page0 rest where pages: "input_pages = page0 # rest"
    using assms(1) by (cases input_pages) auto
  have "add_watermark_to_pdf P E input_pages d so =
      Inr (map (\<lambda>page. mergePage P page (first_saved_page P watermark)) input_pages)"
    using assms(2) unfolding pages add_watermark_to_pdf_def
    by (simp add: split_beta fold_writer)
  then show ?thesis by simp
qed

theorem add_watermark_pages_witness:
  "\<exists>output_pages.
      add_watermark_to_pdf example_pdf example_env [[], [Rotate 1]] text_only
         (Grid \<lparr>horizontal_boxes = 1, vertical_boxes = 1, margin = True\<rparr>) = Inr output_pages
    \<and> length output_pages = 2
    \<and> output_pages ! 0 = [SetFillColor [] 1, SetFont [] 12, Rotate 0, DrawCentredString 50 50 [97]]
    \<and> output_pages ! 1 =
        [Rotate 1, SetFillColor [] 1, SetFont [] 12, Rotate 0, DrawCentredString 50 50 [97]]"
proof -
  let ?wm = "blank\<lparr>ops := [SetFillColor [] 1, SetFont [] 12, Rotate 0, DrawCentredString 50 50 [97]]\<rparr>"
  let ?g = "Grid \<lparr>horizontal_boxes = 1, vertical_boxes = 1, margin = True\<rparr> :: string specific_options"
  have ne: "[[], [Rotate 1]] \<noteq> []" by simp
  have dw: "draw_watermarks example_env (temporary_file_name example_pdf)
       (fst (mediaBox example_pdf (hd [[], [Rotate 1]])))
       (snd (mediaBox example_pdf (hd [[], [Rotate 1]]))) text_only ?g = Inr ?wm"
    using draw_watermarks_example by (simp add: example_pdf_def)
  obtain out where out:
      "add_watermark_to_pdf example_pdf example_env [[], [Rotate 1]] text_only ?g = Inr out"
      "length out = length [[], [Rotate 1]]"
      "\<forall>i < length [[], [Rotate 1]].
          out ! i = mergePage example_pdf ([[], [Rotate 1]] ! i) (first_saved_page example_pdf ?wm)"
    using add_watermark_pages [OF ne dw] by blast
  have "out ! 0 = [SetFillColor [] 1, SetFont [] 12, Rotate 0, DrawCentredString 50 50 [97]]"
    using out(3) by (simp add: example_pdf_def blank_def)
  moreover have "out ! 1 =
      [Rotate 1, SetFillColor [] 1, SetFont [] 12, Rotate 0, DrawCentredString 50 50 [97]]"
    using out(3) by (simp add: example_pdf_def blank_def)
  ultimately show ?thesis using out(1,2) by simp
qed

text \<open>C7 as stated fails on an input file without pages, where \<open>pages[0]\<close> raises, and
  on a file with one page when the drawing raises, here for want of a text and an image:
  in both cases nothing is written.\<close>

theorem add_watermark_raises_counterexample:
  "add_watermark_to_pdf example_pdf example_env [] text_only
     (Grid \<lparr>horizontal_boxes = 1, vertical_boxes = 1, margin = True\<rparr>) = Inl IndexError
   \<and> add_watermark_to_pdf example_pdf example_env [[]] no_watermark
       (Insert \<lparr>insert_x = 1 / 2, insert_y = 1 / 2,
                horizontal_alignment = Alignments_value example_env LEFT\<rparr>)
     = Inl ValueError_no_watermark"
  by (simp add: add_watermark_to_pdf_def example_pdf_def draw_watermarks_def
        draw_insert_watermark_def watermark_size_def draw_font_options_def no_watermark_def
        text_only_def)

text \<open>C8, as amended: \<open>draw_insert_watermark\<close> raises exactly when the drawing options
  have neither text nor image, or the alignment is not the value of \<open>LEFT\<close>, \<open>RIGHT\<close> or
  \<open>CENTER\<close>. The first case raises "No watermark to draw" whatever the alignment is; the
  second raises "Invalid alignment value".\<close>

theorem insert_raises_iff:
  "(draw_insert_watermark E c d so w h R = Inl ValueError_no_watermark
      \<longleftrightarrow> text_opt d = None \<and> image_opt d = None)
   \<and> (draw_insert_watermark E c d so w h R = Inl ValueError_invalid_alignment
      \<longleftrightarrow> \<not> (text_opt d = None \<and> image_opt d = None)
          \<and> horizontal_alignment so \<notin>
               {Alignments_value E LEFT, Alignments_value E RIGHT, Alignments_value E CENTER})
   \<and> ((\<exists>e. draw_insert_watermark E c d so w h R = Inl e)
      \<longleftrightarrow> (text_opt d = None \<and> image_opt d = None)
          \<or> horizontal_alignment so \<notin>
               {Alignments_value E LEFT, Alignments_value E RIGHT, Alignments_value E CENTER})"
  by (auto simp: draw_insert_watermark_def watermark_size_def max_image_width_def
        alignment_offset_def split_beta split: option.splits sum.splits if_splits)

theorem insert_raises_iff_witness:
  "draw_insert_watermark example_env blank text_only
      \<lparr>insert_x = 1 / 2, insert_y = 1 / 2, horizontal_alignment = ''middle''\<rparr>
      100 100 ((1, 0), (0, 1)) = Inl ValueError_invalid_alignment
   \<and> draw_insert_watermark example_env blank no_watermark
      \<lparr>insert_x = 1 / 2, insert_y = 1 / 2, horizontal_alignment = ''middle''\<rparr>
      100 100 ((1, 0), (0, 1)) = Inl ValueError_no_watermark
   \<and> draw_insert_watermark example_env blank text_only
      \<lparr>insert_x = 1 / 2, insert_y = 1 / 2, horizontal_alignment = ''center''\<rparr>
      100 100 ((1, 0), (0, 1)) \<noteq> Inl ValueError_invalid_alignment"
  using insert_raises_iff [of example_env blank text_only
          "\<lparr>insert_x = 1 / 2, insert_y = 1 / 2, horizontal_alignment = ''middle''\<rparr>"
          100 100 "((1, 0), (0, 1))"]
        insert_raises_iff [of example_env blank no_watermark
          "\<lparr>insert_x = 1 / 2, insert_y = 1 / 2, horizontal_alignment = ''middle''\<rparr>"
          100 100 "((1, 0), (0, 1))"]
        insert_raises_iff [of example_env blank text_only
          "\<lparr>insert_x = 1 / 2, insert_y = 1 / 2, horizontal_alignment = ''center''\<rparr>"
          100 100 "((1, 0), (0, 1))"]
  by (simp add: example_env_def text_only_def no_watermark_def)

text \<open>C8 as stated fails: with neither text nor image, \<open>draw_insert_watermark\<close> raises
  although the alignment is the value of \<open>LEFT\<close>.\<close>

theorem insert_no_watermark_counterexample:
  "draw_insert_watermark example_env blank no_watermark
      \<lparr>insert_x = 1 / 2, insert_y = 1 / 2,
       horizontal_alignment = Alignments_value example_env LEFT\<rparr>
      100 100 ((1, 0), (0, 1)) = Inl ValueError_no_watermark"
  by (simp add: draw_insert_watermark_def watermark_size_def no_watermark_def text_only_def)

text \<open>C10: for an insert with an image and no text whose alignment is the value of a
  member \<open>a\<close> of \<open>Alignments\<close> (distinct members having distinct values), the maximal
  width given to \<open>fit_image\<close> is \<open>x * w\<close> for \<open>LEFT\<close>, \<open>(1 - x) * w\<close> for \<open>RIGHT\<close> and
  \<open>min (2 * (1 - x) * w) (2 * x * w)\<close> for \<open>CENTER\<close>, and the maximal height is
  \<open>min (2 * y * h) (4 * (1 - y) * h)\<close> for each of them.\<close>

theorem insert_image_box:
  assumes "inj (Alignments_value E)"
      and "horizontal_alignment so = Alignments_value E a"
      and "text_opt d = None" and "image_opt d = Some img"
  shows "max_image_width E so w =
           Inr (case a of
                  LEFT \<Rightarrow> insert_x so * w
                | RIGHT \<Rightarrow> (1 - insert_x so) * w
                | CENTER \<Rightarrow> min (2 * (1 - insert_x so) * w) (2 * insert_x so * w))
       \<and> max_image_height so h = min (2 * insert_y so * h) (4 * (1 - insert_y so) * h)
       \<and> watermark_size E d so w h =
           (let (image_width, image_height) =
                  fit_image E (of_int (fst (getSize img))) (of_int (snd (getSize img)))
                    (case a of
                       LEFT \<Rightarrow> insert_x so * w
                     | RIGHT \<Rightarrow> (1 - insert_x so) * w
                     | CENTER \<Rightarrow> min (2 * (1 - insert_x so) * w) (2 * insert_x so * w))
                    (min (2 * insert_y so * h) (4 * (1 - insert_y so) * h))
                    (image_scale d)
            in Inr (image_width, image_width, image_height))"
proof -
  have mh: "max_image_height so h = min (2 * insert_y so * h) (4 * (1 - insert_y so) * h)"
    by (simp add: max_image_height_def algebra_simps)
  show ?thesis using assms(3,4)
    by (simp add: max_image_width_of_member [OF assms(1,2)] mh watermark_size_def)
qed

theorem insert_image_box_witness:
  "inj (Alignments_value example_env)
   \<and> max_image_width example_env
        \<lparr>insert_x = 1 / 4, insert_y = 1 / 4, horizontal_alignment = Alignments_value example_env CENTER\<rparr>
        100 = Inr 50
   \<and> max_image_height
        \<lparr>insert_x = 1 / 4, insert_y = 1 / 4, horizontal_alignment = Alignments_value example_env CENTER\<rparr>
        80 = 40
   \<and> watermark_size example_env image_only
        \<lparr>insert_x = 1 / 4, insert_y = 1 / 4, horizontal_alignment = Alignments_value example_env CENTER\<rparr>
        100 80 = Inr (100, 100, 50)"
  using inj_example_env
    insert_image_box [OF inj_example_env, of
      "\<lparr>insert_x = 1 / 4, insert_y = 1 / 4, horizontal_alignment = Alignments_value example_env CENTER\<rparr>"
      CENTER image_only "ImageReader [] (200, 100)" 100 80]
  by (simp add: image_only_def text_only_def example_env_def fit_box_def shrink_to_box_def
        py_div_def)

end
